theory Spec2Isabelle
  imports Complex_Main "HOL-Library.Sublist" "HOL-Library.Multiset"
begin

section \<open>Python values and errors\<close>

text \<open>
  Numbers. The program computes on Python floats (IEEE doubles). A finite float is modelled
  as the real number it denotes and arithmetic on finite floats as exact real arithmetic:
  rounding and overflow are outside the model. The input lists of the analyzer are
  \<open>real list\<close>, that is, lists of finite floats.

  Exceptions. Every \<^verbatim>\<open>raise\<close> and every failing builtin operation is a value \<open>Inl e\<close>
  of a sum type; \<open>Inr v\<close> is a normal return.
\<close>

datatype py_error =
    IndexError            \<comment> \<open>list index out of range\<close>
  | ZeroDivisionError     \<comment> \<open>float division by zero\<close>
  | TypeError             \<comment> \<open>an operand of the wrong type, e.g. \<^verbatim>\<open>q_stat > None\<close>\<close>
  | KeyError string       \<comment> \<open>a missing dictionary key\<close>
  | SympifyError          \<comment> \<open>sympy cannot parse the expression text\<close>

text \<open>Sequencing of computations that may raise: the first exception ends the run.\<close>

definition and_then :: "'e + 'a \<Rightarrow> ('a \<Rightarrow> 'e + 'b) \<Rightarrow> 'e + 'b" where
  "and_then r f = (case r of Inl e \<Rightarrow> Inl e | Inr v \<Rightarrow> f v)"

text \<open>
  \<^verbatim>\<open>xs[i]\<close> on a Python list: a negative index counts from the end, and an index outside
  \<open>-len \<dots> len-1\<close> raises \<^verbatim>\<open>IndexError\<close>.
\<close>

definition py_getitem :: "'a list \<Rightarrow> int \<Rightarrow> py_error + 'a" where
  "py_getitem xs i =
     (if 0 \<le> i \<and> i < int (length xs) then Inr (xs ! nat i)
      else if i < 0 \<and> - int (length xs) \<le> i then Inr (xs ! nat (int (length xs) + i))
      else Inl IndexError)"

text \<open>\<^verbatim>\<open>a / b\<close> on Python floats: a zero divisor raises \<^verbatim>\<open>ZeroDivisionError\<close>.\<close>

definition py_truediv :: "real \<Rightarrow> real \<Rightarrow> py_error + real" where
  "py_truediv a b = (if b = 0 then Inl ZeroDivisionError else Inr (a / b))"

section \<open>Analyzer: Dixon's Q-test\<close>

text \<open>
  \<^verbatim>\<open>StatisticalAnalyzer.perform_qtest\<close> (analyzer.py, lines 8-48). The result dictionary
  with the keys \<^verbatim>\<open>q_statistic\<close>, \<^verbatim>\<open>q_critical\<close>, \<^verbatim>\<open>is_outlier\<close> is a record.
\<close>

record qtest_result =
  q_statistic :: real
  q_critical :: real
  is_outlier :: int

text \<open>The dictionary \<^verbatim>\<open>q_critical_values\<close> of lines 33-36.\<close>

definition q_critical_values :: "nat \<rightharpoonup> real" where
  "q_critical_values =
     map_of [(3, 0.970), (4, 0.829), (5, 0.710), (6, 0.625),
             (7, 0.568), (8, 0.526), (9, 0.493), (10, 0.466)]"

text \<open>
  The body, statement by statement. \<^verbatim>\<open>sorted(data)\<close> is \<open>sort data\<close>. Line 27 reads
  \<^verbatim>\<open>sorted_data[1]\<close>, \<^verbatim>\<open>sorted_data[0]\<close>, \<^verbatim>\<open>sorted_data[-1]\<close> and divides; line 28 reads
  \<^verbatim>\<open>sorted_data[-1]\<close>, \<^verbatim>\<open>sorted_data[-2]\<close> and divides by the same range; line 39 looks the
  critical value up with \<^verbatim>\<open>.get\<close>, which gives \<^verbatim>\<open>None\<close> for a missing key, and the
  comparison of line 42 with \<^verbatim>\<open>None\<close> raises \<^verbatim>\<open>TypeError\<close>. The parameter
  \<^verbatim>\<open>confidence_level\<close> is accepted and never read.
\<close>

definition perform_qtest :: "real list \<Rightarrow> real \<Rightarrow> py_error + qtest_result" where
  "perform_qtest data confidence_level =
     (let sorted_data = sort data;
          n = length sorted_data
      in and_then (py_getitem sorted_data 1) (\<lambda>x1.
         and_then (py_getitem sorted_data 0) (\<lambda>x0.
         and_then (py_getitem sorted_data (- 1)) (\<lambda>xl.
         and_then (py_truediv \<bar>x1 - x0\<bar> \<bar>xl - x0\<bar>) (\<lambda>q_stat.
         and_then (py_getitem sorted_data (- 2)) (\<lambda>xl2.
         and_then (py_truediv \<bar>xl - xl2\<bar> \<bar>xl - x0\<bar>) (\<lambda>q_stat_end.
         let q_stat = max q_stat q_stat_end
         in case q_critical_values (min n 10) of
              None \<Rightarrow> Inl TypeError
            | Some q_crit \<Rightarrow>
                Inr \<lparr>q_statistic = q_stat,
                     q_critical = q_crit,
                     is_outlier = (if q_stat > q_crit then 1 else 0)\<rparr>)))))))"

text \<open>
  The specification's wording of the critical-value table, for comparison with the code:
  sizes 3 to 10 map to the eight listed values, and a larger size is clamped to the entry
  for size 10.
\<close>

definition spec_critical_value :: "nat \<Rightarrow> real" where
  "spec_critical_value n =
     (if n = 3 then 0.970 else if n = 4 then 0.829 else if n = 5 then 0.710
      else if n = 6 then 0.625 else if n = 7 then 0.568 else if n = 8 then 0.526
      else if n = 9 then 0.493 else 0.466)"

section \<open>Validator: parsing a numeric sample\<close>

text \<open>
  Strings are lists of characters. The whitespace characters of Python's \<^verbatim>\<open>str.isspace\<close>
  and \<^verbatim>\<open>str.split()\<close> in the ASCII range are tab, line feed, vertical tab, form feed,
  carriage return, the separators \<^verbatim>\<open>\x1c\<close> to \<^verbatim>\<open>\x1f\<close>, and the space.
\<close>

definition py_isspace :: "char \<Rightarrow> bool" where
  "py_isspace c \<longleftrightarrow>
     c \<in> set [CHR 0x09, CHR 0x0A, CHR 0x0B, CHR 0x0C, CHR 0x0D,
              CHR 0x1C, CHR 0x1D, CHR 0x1E, CHR 0x1F, CHR 0x20]"


text \<open>
  \<^verbatim>\<open>text.split()\<close>: the maximal runs of non-whitespace characters, in order. The first
  argument is the run read so far.
\<close>

fun split_run :: "string \<Rightarrow> string \<Rightarrow> string list" where
  "split_run w [] = (if w = [] then [] else [w])"
| "split_run w (c # cs) =
     (if py_isspace c then (if w = [] then split_run [] cs else w # split_run [] cs)
      else split_run (w @ [c]) cs)"

definition str_split :: "string \<Rightarrow> string list" where
  "str_split text = split_run [] text"





definition is_digit :: "char \<Rightarrow> bool" where
  "is_digit c \<longleftrightarrow> (48::nat) \<le> of_char c \<and> of_char c \<le> (57::nat)"


section \<open>Validator: the inputs of the error propagation\<close>

text \<open>
  The character classes of the two regular expressions: \<^verbatim>\<open>[a-zA-Z_]\<close> and
  \<^verbatim>\<open>[a-zA-Z0-9_]\<close>.
\<close>

definition ident_start :: "char \<Rightarrow> bool" where
  "ident_start c \<longleftrightarrow>
     (97::nat) \<le> of_char c \<and> of_char c \<le> (122::nat) \<or>
     (65::nat) \<le> of_char c \<and> of_char c \<le> (90::nat) \<or> c = CHR ''_''"

definition ident_char :: "char \<Rightarrow> bool" where
  "ident_char c \<longleftrightarrow> ident_start c \<or> is_digit c"

text \<open>
  \<^verbatim>\<open>variable_pattern.match(var)\<close> for the pattern \<^verbatim>\<open>^[a-zA-Z_][a-zA-Z0-9_]*$\<close>. In Python
  \<^verbatim>\<open>$\<close> matches at the end of the string and also just before a line feed that ends the
  string, so the identifier may be followed by one final line feed.
\<close>

definition variable_pattern_match :: "string \<Rightarrow> bool" where
  "variable_pattern_match var =
     (case var of
        [] \<Rightarrow> False
      | c # cs \<Rightarrow>
          ident_start c \<and>
          (let rest = dropWhile ident_char cs in rest = [] \<or> rest = [CHR 0x0A]))"

text \<open>
  The loop of lines 92-94: the first name that does not match ends the validation and is
  quoted in the message.
\<close>

fun first_invalid_name :: "string list \<Rightarrow> string option" where
  "first_invalid_name [] = None"
| "first_invalid_name (var # vars) =
     (if \<not> variable_pattern_match var then Some var else first_invalid_name vars)"

text \<open>
  \<^verbatim>\<open>re.findall(r'[a-zA-Z_][a-zA-Z0-9_]*', function_str)\<close>: scanning from the left, every
  maximal run that starts with a letter or underscore and continues with letters, digits
  and underscores.
\<close>

function findall_identifiers :: "string \<Rightarrow> string list" where
  "findall_identifiers [] = []"
| "findall_identifiers (c # cs) =
     (if ident_start c
      then (c # takeWhile ident_char cs) # findall_identifiers (dropWhile ident_char cs)
      else findall_identifiers cs)"
  by pat_completeness auto
termination
  by (relation "measure length") (auto simp: less_Suc_eq_le length_dropWhile_le)

text \<open>\<^verbatim>\<open>function_str.count(ch)\<close> for a single character.\<close>

definition str_count :: "string \<Rightarrow> char \<Rightarrow> nat" where
  "str_count text ch = length (filter (\<lambda>c. c = ch) text)"

text \<open>
  The six failures of \<^verbatim>\<open>validate_error_propagation_inputs\<close>, named as in the
  specification, with what the message quotes: the offending name (line 94), the set of
  undefined names (line 104; a Python set, so their order in the message is not fixed).
\<close>

datatype validation_error =
    MissingField
  | LengthMismatch
  | InvalidVariableName string
  | NonPositiveUncertainty
  | UndefinedVariable "string set"
  | UnbalancedParentheses

text \<open>
  \<^verbatim>\<open>DataValidator.validate_error_propagation_inputs\<close> (validator.py, lines 66-114). The
  pair \<^verbatim>\<open>(ok, message)\<close> is \<open>Inr ()\<close> when \<^verbatim>\<open>ok\<close> is true and \<open>Inl\<close> of the message
  otherwise. The \<^verbatim>\<open>try\<close> of lines 107-112 guards \<^verbatim>\<open>str.count\<close>, which cannot raise.
\<close>

definition validate_error_propagation_inputs ::
  "string list \<Rightarrow> real list \<Rightarrow> real list \<Rightarrow> string \<Rightarrow> validation_error + unit" where
  "validate_error_propagation_inputs variables vals errors function_str =
     (if variables = [] \<or> vals = [] \<or> errors = [] \<or> function_str = [] then Inl MissingField
      else if \<not> (length variables = length vals \<and> length vals = length errors)
        then Inl LengthMismatch
      else case first_invalid_name variables of
        Some var \<Rightarrow> Inl (InvalidVariableName var)
      | None \<Rightarrow>
          if list_ex (\<lambda>error. error \<le> 0) errors then Inl NonPositiveUncertainty
          else let function_vars = set (findall_identifiers function_str);
                   undefined_vars = function_vars - set variables
               in if undefined_vars \<noteq> {} then Inl (UndefinedVariable undefined_vars)
                  else if str_count function_str (CHR ''('') \<noteq> str_count function_str (CHR '')'')
                    then Inl UnbalancedParentheses
                  else Inr ())"

text \<open>
  The specification's wording of the same validation, for comparison with the code: six
  named checks in a fixed order, each failing or passing on its own, and the first failing
  check decides the outcome.
\<close>

datatype check =
    Check_MissingField
  | Check_LengthMismatch
  | Check_InvalidVariableName
  | Check_NonPositiveUncertainty
  | Check_UndefinedVariable
  | Check_UnbalancedParentheses

definition spec_checks ::
  "string list \<Rightarrow> real list \<Rightarrow> real list \<Rightarrow> string \<Rightarrow> (check \<times> bool) list" where
  "spec_checks names vals uncertainties expression =
     [(Check_MissingField,
         names = [] \<or> vals = [] \<or> uncertainties = [] \<or> expression = []),
      (Check_LengthMismatch,
         length names \<noteq> length vals \<or> length vals \<noteq> length uncertainties
           \<or> length names \<noteq> length uncertainties),
      (Check_InvalidVariableName, list_ex (\<lambda>name. \<not> variable_pattern_match name) names),
      (Check_NonPositiveUncertainty, list_ex (\<lambda>u. u \<le> 0) uncertainties),
      (Check_UndefinedVariable,
         list_ex (\<lambda>ident. ident \<notin> set names) (findall_identifiers expression)),
      (Check_UnbalancedParentheses,
         str_count expression (CHR ''('') \<noteq> str_count expression (CHR '')''))]"

text \<open>The first check of a list that fails, if any: the pairs are (check, it fails).\<close>

fun first_failing :: "(check \<times> bool) list \<Rightarrow> check option" where
  "first_failing [] = None"
| "first_failing ((k, fails) # rest) = (if fails then Some k else first_failing rest)"

text \<open>The check that a failure of the code reports.\<close>

fun check_of :: "validation_error \<Rightarrow> check" where
  "check_of MissingField = Check_MissingField"
| "check_of LengthMismatch = Check_LengthMismatch"
| "check_of (InvalidVariableName var) = Check_InvalidVariableName"
| "check_of NonPositiveUncertainty = Check_NonPositiveUncertainty"
| "check_of (UndefinedVariable undefined_vars) = Check_UndefinedVariable"
| "check_of UnbalancedParentheses = Check_UnbalancedParentheses"

section \<open>Validator: the requirements of a test\<close>

text \<open>
  The three failure messages of \<^verbatim>\<open>check_data_requirements\<close>: the Q-test needs at least
  three data (line 54), the confidence interval needs at least one (line 57), the kind of
  test is not a known one (line 61).
\<close>

datatype requirement_error = QTestTooFewData | ConfidenceIntervalTooFewData | InvalidOperation

text \<open>\<^verbatim>\<open>DataValidator.check_data_requirements\<close> (validator.py, lines 39-63).\<close>

definition check_data_requirements :: "'a list \<Rightarrow> string \<Rightarrow> requirement_error + unit" where
  "check_data_requirements data kind =
     (if kind = ''qtest'' then
        (if length data < 3 then Inl QTestTooFewData else Inr ())
      else if kind = ''confidence_interval'' then
        (if length data < 1 then Inl ConfidenceIntervalTooFewData else Inr ())
      else if kind = ''error_propagation'' then Inr ()
      else Inl InvalidOperation)"

text \<open>
  The specification's wording of a variable name: a letter or underscore followed by
  letters, digits and underscores.
\<close>

definition spec_identifier :: "string \<Rightarrow> bool" where
  "spec_identifier name \<longleftrightarrow>
     name \<noteq> [] \<and> ident_start (hd name) \<and> list_all ident_char (tl name)"

section \<open>Validator: splitting a sample for the t-test\<close>

text \<open>
  \<^verbatim>\<open>DataValidator.split_data_for_ttest\<close> (validator.py):
  \<^verbatim>\<open>mid = len(data) // 2; return data[:mid], data[mid:]\<close>.
  For \<open>0 \<le> mid \<le> len(data)\<close> the slices \<^verbatim>\<open>data[:mid]\<close> and \<^verbatim>\<open>data[mid:]\<close> are
  \<open>take mid\<close> and \<open>drop mid\<close>.
\<close>

definition split_data_for_ttest :: "'a list \<Rightarrow> 'a list \<times> 'a list" where
  "split_data_for_ttest data =
     (let mid = length data div 2 in (take mid data, drop mid data))"

section \<open>Floats with special values\<close>

text \<open>
  Where the program itself produces a float that is not finite (numpy's mean and standard
  deviation of too small a sample are NaN, the relative error of a zero function value is
  \<^verbatim>\<open>float('inf')\<close>, and the statistics library returns NaN outside its domain), a float is
  a \<open>pyfloat\<close>: a finite value, an infinity or NaN. Finite arithmetic stays exact, and zero
  carries no sign.
\<close>

datatype pyfloat = Fin real | PosInf | NegInf | NaN







text \<open>\<^verbatim>\<open>a < b\<close>: false when either side is NaN.\<close>

fun flt :: "pyfloat \<Rightarrow> pyfloat \<Rightarrow> bool" where
  "flt NaN b = False"
| "flt a NaN = False"
| "flt (Fin x) (Fin y) = (x < y)"
| "flt a PosInf = (a \<noteq> PosInf)"
| "flt NegInf b = (b \<noteq> NegInf)"
| "flt a b = False"

section \<open>The numeric libraries\<close>

text \<open>
  \<^verbatim>\<open>np.mean(data)\<close>: the sum over the count; NaN (with a warning, no exception) for an empty
  list.
\<close>

definition np_mean :: "real list \<Rightarrow> pyfloat" where
  "np_mean data = (if data = [] then NaN else Fin (sum_list data / real (length data)))"


text \<open>
  The functions of \<^verbatim>\<open>scipy.stats\<close> that the analyzer calls are parameters, gathered in a
  record: the quantile function of Student's t distribution \<^verbatim>\<open>stats.t.ppf(q, df)\<close> and the
  two tests \<^verbatim>\<open>stats.ttest_ind(a, b)\<close> and \<^verbatim>\<open>stats.ttest_rel(a, b)\<close>, each returning the pair
  of the statistic and the p-value. None of them raises on lists of floats (on degenerate
  input they return NaN); \<^verbatim>\<open>ttest_rel\<close> is only called on lists of equal length.
\<close>

record stats_lib =
  t_ppf :: "real \<Rightarrow> int \<Rightarrow> pyfloat"
  ttest_ind :: "real list \<Rightarrow> real list \<Rightarrow> pyfloat \<times> pyfloat"
  ttest_rel :: "real list \<Rightarrow> real list \<Rightarrow> pyfloat \<times> pyfloat"

section \<open>Analyzer: confidence interval\<close>

text \<open>
  \<^verbatim>\<open>StatisticalAnalyzer.calculate_confidence_interval\<close> (analyzer.py, lines 51-87). The
  result dictionary is a record with its five keys.
\<close>

record ci_result =
  mean :: pyfloat
  std :: pyfloat
  lower :: pyfloat
  upper :: pyfloat
  confidence_level :: real


section \<open>Analyzer: two-sample t-test\<close>

text \<open>
  \<^verbatim>\<open>StatisticalAnalyzer.perform_ttest\<close> (analyzer.py, lines 154-197). Both failures are a
  \<^verbatim>\<open>ValueError\<close>; they differ in the message: the two groups of a paired test need the
  same number of data (line 184), and the test type must be \<^verbatim>\<open>'independent'\<close> or
  \<^verbatim>\<open>'paired'\<close> (line 188). They are named as in the specification.
\<close>

datatype ttest_error = SizeMismatch | InvalidTestType

record ttest_result =
  statistic :: pyfloat
  pvalue :: pyfloat
  dof :: int
  mean1 :: pyfloat
  mean2 :: pyfloat
  test_type :: string

definition perform_ttest ::
  "stats_lib \<Rightarrow> real list \<Rightarrow> real list \<Rightarrow> string \<Rightarrow> ttest_error + ttest_result" where
  "perform_ttest lib group1 group2 kind =
     (let m1 = np_mean group1;
          m2 = np_mean group2
      in if kind = ''independent'' then
           (case ttest_ind lib group1 group2 of
              (stat, p) \<Rightarrow>
                Inr \<lparr>statistic = stat, pvalue = p,
                     dof = int (length group1) + int (length group2) - 2,
                     mean1 = m1, mean2 = m2, test_type = kind\<rparr>)
         else if kind = ''paired'' then
           (if length group1 \<noteq> length group2 then Inl SizeMismatch
            else case ttest_rel lib group1 group2 of
              (stat, p) \<Rightarrow>
                Inr \<lparr>statistic = stat, pvalue = p,
                     dof = int (length group1) - 1,
                     mean1 = m1, mean2 = m2, test_type = kind\<rparr>)
         else Inl InvalidTestType)"

section \<open>Analyzer: error propagation\<close>

text \<open>
  Modelled from the spec: the symbolic expressions of the sympy library, which is not part
  of the repository. Following section 9 of the specification, an expression is a tree of
  typed nodes, and substitution and differentiation are transformations of the tree. The
  model covers the polynomial fragment: numbers, symbols, sums, products and powers with a
  natural exponent. A symbol is identified with its name, so \<^verbatim>\<open>symbols(var)\<close> is \<open>var\<close>.
\<close>

datatype expr =
    Num real
  | Sym string
  | Add expr expr
  | Mul expr expr
  | Power expr nat

text \<open>
  Modelled from the spec: \<^verbatim>\<open>float(e.subs(var_dict))\<close>, the value of the expression at the
  given values. A symbol without a value is left in the expression, and \<^verbatim>\<open>float\<close> of such
  an expression raises \<^verbatim>\<open>TypeError\<close>.
\<close>

fun subs_float :: "expr \<Rightarrow> (string \<rightharpoonup> real) \<Rightarrow> py_error + real" where
  "subs_float (Num c) var_dict = Inr c"
| "subs_float (Sym v) var_dict = (case var_dict v of None \<Rightarrow> Inl TypeError | Some x \<Rightarrow> Inr x)"
| "subs_float (Add a b) var_dict =
     and_then (subs_float a var_dict) (\<lambda>x. and_then (subs_float b var_dict) (\<lambda>y. Inr (x + y)))"
| "subs_float (Mul a b) var_dict =
     and_then (subs_float a var_dict) (\<lambda>x. and_then (subs_float b var_dict) (\<lambda>y. Inr (x * y)))"
| "subs_float (Power a n) var_dict = and_then (subs_float a var_dict) (\<lambda>x. Inr (x ^ n))"

text \<open>
  Modelled from the spec: \<^verbatim>\<open>diff(e, symbol)\<close>, the partial derivative by the rules for
  sums, products and powers. sympy returns the derivative in a simplified form; its value
  at a point is the same.
\<close>

fun diff :: "expr \<Rightarrow> string \<Rightarrow> expr" where
  "diff (Num c) v = Num 0"
| "diff (Sym x) v = Num (if x = v then 1 else 0)"
| "diff (Add a b) v = Add (diff a v) (diff b v)"
| "diff (Mul a b) v = Add (Mul (diff a v) b) (Mul a (diff b v))"
| "diff (Power a n) v =
     (if n = 0 then Num 0 else Mul (Mul (Num (real n)) (Power a (n - 1))) (diff a v))"

text \<open>
  The parser \<^verbatim>\<open>sympify\<close> and the printer \<^verbatim>\<open>str\<close> of sympy are parameters, gathered in a
  record.
\<close>

record sympy_lib =
  sympify :: "string \<Rightarrow> py_error + expr"
  sstr :: "expr \<Rightarrow> string"

text \<open>
  \<^verbatim>\<open>StatisticalAnalyzer.calculate_error_propagation\<close> (analyzer.py, lines 90-151). The
  result dictionary is a record; each entry of \<^verbatim>\<open>derivatives\<close>, a dictionary with the
  keys \<^verbatim>\<open>variable\<close> and \<^verbatim>\<open>expression\<close>, is a pair.
\<close>

record ep_result =
  function_value :: real
  propagated_error :: real
  relative_error :: pyfloat
  original_function :: string
  derivatives :: "(string \<times> string) list"

text \<open>
  The loop of lines 126-137 over \<^verbatim>\<open>zip(symbol_list, errors)\<close>, with the running
  \<^verbatim>\<open>total\<close> (here \<open>total_acc\<close>) and the list \<^verbatim>\<open>derivatives\<close> as accumulators.
\<close>

fun propagate ::
  "sympy_lib \<Rightarrow> expr \<Rightarrow> (string \<rightharpoonup> real) \<Rightarrow> (string \<times> real) list \<Rightarrow>
     real \<Rightarrow> (string \<times> string) list \<Rightarrow> py_error + real \<times> (string \<times> string) list" where
  "propagate lib func var_dict [] total_acc derivs = Inr (total_acc, derivs)"
| "propagate lib func var_dict ((symbol, error) # rest) total_acc derivs =
     (let partial_derivative = diff func symbol;
          derivs' = derivs @ [(symbol, sstr lib partial_derivative)]
      in and_then (subs_float partial_derivative var_dict) (\<lambda>derivative_value.
           propagate lib func var_dict rest (total_acc + (derivative_value * error)\<^sup>2) derivs'))"

text \<open>
  \<^verbatim>\<open>dict(zip(symbol_list, values))\<close> keeps, for a name that occurs twice, the value of its
  last occurrence; \<open>map_of\<close> returns the first match, hence the reversal. \<^verbatim>\<open>total ** 0.5\<close>
  on the non-negative \<^verbatim>\<open>total\<close> is the square root.
\<close>

definition calculate_error_propagation ::
  "sympy_lib \<Rightarrow> string list \<Rightarrow> real list \<Rightarrow> real list \<Rightarrow> string \<Rightarrow> py_error + ep_result" where
  "calculate_error_propagation lib variables vals errors function_str =
     (let symbol_list = variables
      in and_then (sympify lib function_str) (\<lambda>func.
         let var_dict = map_of (rev (zip symbol_list vals))
         in and_then (subs_float func var_dict) (\<lambda>fv.
            let func_str = sstr lib func
            in and_then (propagate lib func var_dict (zip symbol_list errors) 0 [])
                 (\<lambda>(total_acc, derivs).
                    let perr = sqrt total_acc;
                        rel = (if fv \<noteq> 0 then Fin ((perr / \<bar>fv\<bar>) * 100) else PosInf)
                    in Inr \<lparr>function_value = fv,
                            propagated_error = perr,
                            relative_error = rel,
                            original_function = func_str,
                            derivatives = derivs\<rparr>))))"

text \<open>
  The value of an expression under an assignment of all symbols, for stating what
  \<open>subs_float\<close> and \<open>diff\<close> compute.
\<close>

fun expr_value :: "expr \<Rightarrow> (string \<Rightarrow> real) \<Rightarrow> real" where
  "expr_value (Num c) \<rho> = c"
| "expr_value (Sym v) \<rho> = \<rho> v"
| "expr_value (Add a b) \<rho> = expr_value a \<rho> + expr_value b \<rho>"
| "expr_value (Mul a b) \<rho> = expr_value a \<rho> * expr_value b \<rho>"
| "expr_value (Power a n) \<rho> = expr_value a \<rho> ^ n"

text \<open>
  The expression of the repository's test (test_error_propagation.py) and of the
  specification's example, \<^verbatim>\<open>x**2 + 2*x*y + y**2\<close>, as a tree.
\<close>

definition example_expr :: expr where
  "example_expr =
     Add (Add (Power (Sym ''x'') 2) (Mul (Mul (Num 2) (Sym ''x'')) (Sym ''y'')))
         (Power (Sym ''y'') 2)"

section \<open>Analyzer: formatting the results\<close>

text \<open>
  The dictionary \<^verbatim>\<open>results\<close> passed to \<^verbatim>\<open>format_results\<close> is one of the four dictionaries
  that the analyzer builds. No key belongs to two of them, so reading a key of one kind
  from a dictionary of another kind raises \<^verbatim>\<open>KeyError\<close> with that key.
\<close>

datatype results =
    QTestResults qtest_result
  | CIResults ci_result
  | EPResults ep_result
  | TTestResults ttest_result

text \<open>
  The fixed texts of the output are Japanese; a string holds their UTF-8 bytes. In
  English they read:
  \<^item> \<open>txt_independent\<close>: independent two-sample t-test
  \<^item> \<open>txt_paired\<close>: paired two-sample t-test
  \<^item> \<open>txt_result\<close>: result:
  \<^item> \<open>txt_mean1\<close>: group 1 mean =
  \<^item> \<open>txt_mean2\<close>: group 2 mean =
  \<^item> \<open>txt_statistic\<close>: test statistic (t value) =
  \<^item> \<open>txt_dof\<close>: degrees of freedom =
  \<^item> \<open>txt_pvalue\<close>: p value =
  \<^item> \<open>txt_judgment_alpha\<close>: judgment (alpha=0.05):
  \<^item> \<open>txt_significant\<close>: significant
  \<^item> \<open>txt_not_significant\<close>: not significant
  \<^item> \<open>txt_qtest_result\<close>: Q-test result:
  \<^item> \<open>txt_q_statistic\<close>: Q statistic =
  \<^item> \<open>txt_q_critical\<close>: critical value =
  \<^item> \<open>txt_judgment\<close>: judgment:
  \<^item> \<open>txt_outlier\<close>: outlier present
  \<^item> \<open>txt_no_outlier\<close>: no outlier
  \<^item> \<open>txt_ep_result\<close>: result of the error propagation:
  \<^item> \<open>txt_original\<close>: original function:
  \<^item> \<open>txt_partials\<close>: partial derivatives:
  \<^item> \<open>txt_function_value\<close>: function value =
  \<^item> \<open>txt_propagated\<close>: propagated error =
  \<^item> \<open>txt_relative\<close>: relative error =
  \<^item> \<open>txt_ci_result\<close>: result of the confidence interval:
  \<^item> \<open>txt_mean\<close>: mean =
  \<^item> \<open>txt_std\<close>: standard deviation =
  \<^item> \<open>txt_ci\<close>: % confidence interval:
  \<^item> \<open>txt_lower\<close>: lower bound =
  \<^item> \<open>txt_upper\<close>: upper bound =
\<close>

definition txt_independent :: string where
  "txt_independent =
     [CHR 0xE7, CHR 0x8B, CHR 0xAC, CHR 0xE7, CHR 0xAB, CHR 0x8B] @ ''2'' @
       [CHR 0xE6, CHR 0xA8, CHR 0x99, CHR 0xE6, CHR 0x9C, CHR 0xAC] @ ''t'' @
       [CHR 0xE6, CHR 0xA4, CHR 0x9C, CHR 0xE5, CHR 0xAE, CHR 0x9A]"

definition txt_paired :: string where
  "txt_paired =
     [CHR 0xE5, CHR 0xAF, CHR 0xBE, CHR 0xE5, CHR 0xBF, CHR 0x9C] @ ''2'' @
       [CHR 0xE6, CHR 0xA8, CHR 0x99, CHR 0xE6, CHR 0x9C, CHR 0xAC] @ ''t'' @
       [CHR 0xE6, CHR 0xA4, CHR 0x9C, CHR 0xE5, CHR 0xAE, CHR 0x9A]"

definition txt_result :: string where
  "txt_result =
     [CHR 0xE7, CHR 0xB5, CHR 0x90, CHR 0xE6, CHR 0x9E, CHR 0x9C] @ '':''"

definition txt_mean1 :: string where
  "txt_mean1 =
     [CHR 0xE7, CHR 0xAC, CHR 0xAC] @ ''1'' @
       [CHR 0xE7, CHR 0xBE, CHR 0xA4, CHR 0xE5, CHR 0xB9, CHR 0xB3, CHR 0xE5, CHR 0x9D, CHR 0x87] @
       '' = ''"

definition txt_mean2 :: string where
  "txt_mean2 =
     [CHR 0xE7, CHR 0xAC, CHR 0xAC] @ ''2'' @
       [CHR 0xE7, CHR 0xBE, CHR 0xA4, CHR 0xE5, CHR 0xB9, CHR 0xB3, CHR 0xE5, CHR 0x9D, CHR 0x87] @
       '' = ''"

definition txt_statistic :: string where
  "txt_statistic =
     [CHR 0xE6, CHR 0xA4, CHR 0x9C, CHR 0xE5, CHR 0xAE, CHR 0x9A, CHR 0xE7, CHR 0xB5, CHR 0xB1] @
       [CHR 0xE8, CHR 0xA8, CHR 0x88, CHR 0xE9, CHR 0x87, CHR 0x8F] @ '' (t'' @
       [CHR 0xE5, CHR 0x80, CHR 0xA4] @ '') = ''"

definition txt_dof :: string where
  "txt_dof =
     [CHR 0xE8, CHR 0x87, CHR 0xAA, CHR 0xE7, CHR 0x94, CHR 0xB1, CHR 0xE5, CHR 0xBA, CHR 0xA6] @
       '' = ''"

definition txt_pvalue :: string where
  "txt_pvalue =
     ''p'' @ [CHR 0xE5, CHR 0x80, CHR 0xA4] @ '' = ''"

definition txt_judgment_alpha :: string where
  "txt_judgment_alpha =
     [CHR 0xE5, CHR 0x88, CHR 0xA4, CHR 0xE5, CHR 0xAE, CHR 0x9A] @ '' ('' @
       [CHR 0xCE, CHR 0xB1] @ ''=0.05): ''"

definition txt_significant :: string where
  "txt_significant =
     [CHR 0xE6, CHR 0x9C, CHR 0x89, CHR 0xE6, CHR 0x84, CHR 0x8F]"

definition txt_not_significant :: string where
  "txt_not_significant =
     [CHR 0xE9, CHR 0x9D, CHR 0x9E, CHR 0xE6, CHR 0x9C, CHR 0x89, CHR 0xE6, CHR 0x84, CHR 0x8F]"

definition txt_qtest_result :: string where
  "txt_qtest_result =
     ''Q'' @
       [CHR 0xE6, CHR 0xA4, CHR 0x9C, CHR 0xE5, CHR 0xAE, CHR 0x9A, CHR 0xE7, CHR 0xB5, CHR 0x90] @
       [CHR 0xE6, CHR 0x9E, CHR 0x9C] @ '':''"

definition txt_q_statistic :: string where
  "txt_q_statistic =
     ''Q'' @
       [CHR 0xE7, CHR 0xB5, CHR 0xB1, CHR 0xE8, CHR 0xA8, CHR 0x88, CHR 0xE9, CHR 0x87, CHR 0x8F] @
       '' = ''"

definition txt_q_critical :: string where
  "txt_q_critical =
     [CHR 0xE6, CHR 0xA3, CHR 0x84, CHR 0xE5, CHR 0x8D, CHR 0xB4, CHR 0xE9, CHR 0x99, CHR 0x90] @
       [CHR 0xE7, CHR 0x95, CHR 0x8C, CHR 0xE5, CHR 0x80, CHR 0xA4] @ '' = ''"

definition txt_judgment :: string where
  "txt_judgment =
     [CHR 0xE5, CHR 0x88, CHR 0xA4, CHR 0xE5, CHR 0xAE, CHR 0x9A] @ '': ''"

definition txt_outlier :: string where
  "txt_outlier =
     [CHR 0xE5, CHR 0xA4, CHR 0x96, CHR 0xE3, CHR 0x82, CHR 0x8C, CHR 0xE5, CHR 0x80, CHR 0xA4] @
       [CHR 0xE3, CHR 0x81, CHR 0x82, CHR 0xE3, CHR 0x82, CHR 0x8A]"

definition txt_no_outlier :: string where
  "txt_no_outlier =
     [CHR 0xE5, CHR 0xA4, CHR 0x96, CHR 0xE3, CHR 0x82, CHR 0x8C, CHR 0xE5, CHR 0x80, CHR 0xA4] @
       [CHR 0xE3, CHR 0x81, CHR 0xAA, CHR 0xE3, CHR 0x81, CHR 0x97]"

definition txt_ep_result :: string where
  "txt_ep_result =
     [CHR 0xE8, CHR 0xAA, CHR 0xA4, CHR 0xE5, CHR 0xB7, CHR 0xAE, CHR 0xE4, CHR 0xBC, CHR 0x9D] @
       [CHR 0xE6, CHR 0x92, CHR 0xAD, CHR 0xE3, CHR 0x81, CHR 0xAE, CHR 0xE8, CHR 0xA8, CHR 0x88] @
       [CHR 0xE7, CHR 0xAE, CHR 0x97, CHR 0xE7, CHR 0xB5, CHR 0x90, CHR 0xE6, CHR 0x9E, CHR 0x9C] @
       '':''"

definition txt_original :: string where
  "txt_original =
     [CHR 0xE5, CHR 0x85, CHR 0x83, CHR 0xE3, CHR 0x81, CHR 0xAE, CHR 0xE9, CHR 0x96, CHR 0xA2] @
       [CHR 0xE6, CHR 0x95, CHR 0xB0] @ '': ''"

definition txt_partials :: string where
  "txt_partials =
     [CHR 0xE5, CHR 0x81, CHR 0x8F, CHR 0xE5, CHR 0xBE, CHR 0xAE, CHR 0xE5, CHR 0x88, CHR 0x86] @
       '':''"

definition txt_function_value :: string where
  "txt_function_value =
     [CHR 0xE9, CHR 0x96, CHR 0xA2, CHR 0xE6, CHR 0x95, CHR 0xB0, CHR 0xE5, CHR 0x80, CHR 0xA4] @
       '' = ''"

definition txt_propagated :: string where
  "txt_propagated =
     [CHR 0xE4, CHR 0xBC, CHR 0x9D, CHR 0xE6, CHR 0x92, CHR 0xAD, CHR 0xE8, CHR 0xAA, CHR 0xA4] @
       [CHR 0xE5, CHR 0xB7, CHR 0xAE] @ '' = ''"

definition txt_relative :: string where
  "txt_relative =
     [CHR 0xE7, CHR 0x9B, CHR 0xB8, CHR 0xE5, CHR 0xAF, CHR 0xBE, CHR 0xE8, CHR 0xAA, CHR 0xA4] @
       [CHR 0xE5, CHR 0xB7, CHR 0xAE] @ '' = ''"

definition txt_ci_result :: string where
  "txt_ci_result =
     [CHR 0xE4, CHR 0xBF, CHR 0xA1, CHR 0xE9, CHR 0xA0, CHR 0xBC, CHR 0xE5, CHR 0x8C, CHR 0xBA] @
       [CHR 0xE9, CHR 0x96, CHR 0x93, CHR 0xE3, CHR 0x81, CHR 0xAE, CHR 0xE8, CHR 0xA8, CHR 0x88] @
       [CHR 0xE7, CHR 0xAE, CHR 0x97, CHR 0xE7, CHR 0xB5, CHR 0x90, CHR 0xE6, CHR 0x9E, CHR 0x9C] @
       '':''"

definition txt_mean :: string where
  "txt_mean =
     [CHR 0xE5, CHR 0xB9, CHR 0xB3, CHR 0xE5, CHR 0x9D, CHR 0x87, CHR 0xE5, CHR 0x80, CHR 0xA4] @
       '' = ''"

definition txt_std :: string where
  "txt_std =
     [CHR 0xE6, CHR 0xA8, CHR 0x99, CHR 0xE6, CHR 0xBA, CHR 0x96, CHR 0xE5, CHR 0x81, CHR 0x8F] @
       [CHR 0xE5, CHR 0xB7, CHR 0xAE] @ '' = ''"

definition txt_ci :: string where
  "txt_ci =
     ''%'' @
       [CHR 0xE4, CHR 0xBF, CHR 0xA1, CHR 0xE9, CHR 0xA0, CHR 0xBC, CHR 0xE5, CHR 0x8C, CHR 0xBA] @
       [CHR 0xE9, CHR 0x96, CHR 0x93] @ '':''"

definition txt_lower :: string where
  "txt_lower =
     [CHR 0xE4, CHR 0xB8, CHR 0x8B, CHR 0xE9, CHR 0x99, CHR 0x90] @ '' = ''"

definition txt_upper :: string where
  "txt_upper =
     [CHR 0xE4, CHR 0xB8, CHR 0x8A, CHR 0xE9, CHR 0x99, CHR 0x90] @ '' = ''"

definition nl :: string where
  "nl = [CHR 0x0A]"

text \<open>\<^verbatim>\<open>str(n)\<close> for an integer: its decimal digits, with a minus sign when negative.\<close>

fun str_nat :: "nat \<Rightarrow> string" where
  "str_nat n =
     (if n < 10 then [char_of (48 + n)] else str_nat (n div 10) @ [char_of (48 + n mod 10)])"

declare str_nat.simps [simp del]

definition str_int :: "int \<Rightarrow> string" where
  "str_int i = (if i < 0 then ''-'' @ str_nat (nat (- i)) else str_nat (nat i))"

text \<open>\<^verbatim>\<open>sep.join(parts)\<close>.\<close>

fun str_join :: "string \<Rightarrow> string list \<Rightarrow> string" where
  "str_join sep [] = []"
| "str_join sep [x] = x"
| "str_join sep (x # y # rest) = x @ sep @ str_join sep (y # rest)"

text \<open>
  The four f-strings of \<^verbatim>\<open>format_results\<close> (analyzer.py, lines 200-253), one definition
  each. The builtin formatting of a float with a fixed number of decimals,
  \<^verbatim>\<open>f"{x:.4f}"\<close>, is the parameter \<open>fmt\<close>: \<open>fmt 4 x\<close>.
\<close>

definition format_ttest :: "(nat \<Rightarrow> pyfloat \<Rightarrow> string) \<Rightarrow> ttest_result \<Rightarrow> string" where
  "format_ttest fmt r =
     (let test_name = (if test_type r = ''independent'' then txt_independent else txt_paired);
          significance =
            (if flt (pvalue r) (Fin (5 / 100)) then txt_significant else txt_not_significant)
      in test_name @ txt_result @ nl @
         txt_mean1 @ fmt 4 (mean1 r) @ nl @
         txt_mean2 @ fmt 4 (mean2 r) @ nl @
         txt_statistic @ fmt 4 (statistic r) @ nl @
         txt_dof @ str_int (dof r) @ nl @
         txt_pvalue @ fmt 4 (pvalue r) @ nl @
         txt_judgment_alpha @ significance)"

definition format_qtest :: "(nat \<Rightarrow> pyfloat \<Rightarrow> string) \<Rightarrow> qtest_result \<Rightarrow> string" where
  "format_qtest fmt r =
     txt_qtest_result @ nl @
     txt_q_statistic @ fmt 4 (Fin (q_statistic r)) @ nl @
     txt_q_critical @ fmt 4 (Fin (q_critical r)) @ nl @
     txt_judgment @ (if is_outlier r \<noteq> 0 then txt_outlier else txt_no_outlier)"

definition format_error_propagation :: "(nat \<Rightarrow> pyfloat \<Rightarrow> string) \<Rightarrow> ep_result \<Rightarrow> string" where
  "format_error_propagation fmt r =
     (let derivatives_str =
            str_join nl (map (\<lambda>(variable, expression).
                                ''diff f /diff '' @ variable @ '' = '' @ expression)
                             (derivatives r))
      in txt_ep_result @ nl @
         txt_original @ original_function r @ nl @ nl @
         txt_partials @ nl @ derivatives_str @ nl @ nl @
         txt_function_value @ fmt 6 (Fin (function_value r)) @ nl @
         txt_propagated @ fmt 6 (Fin (propagated_error r)) @ nl @
         txt_relative @ fmt 2 (relative_error r) @ ''%'')"

definition format_confidence_interval :: "(nat \<Rightarrow> pyfloat \<Rightarrow> string) \<Rightarrow> ci_result \<Rightarrow> string" where
  "format_confidence_interval fmt r =
     (let confidence_percent = confidence_level r * 100
      in txt_ci_result @ nl @
         txt_mean @ fmt 4 (mean r) @ nl @
         txt_std @ fmt 4 (std r) @ nl @
         fmt 1 (Fin confidence_percent) @ txt_ci @ nl @
         txt_lower @ fmt 4 (lower r) @ nl @
         txt_upper @ fmt 4 (upper r))"

text \<open>
  \<^verbatim>\<open>StatisticalAnalyzer.format_results\<close>: the chain of comparisons of \<^verbatim>\<open>test_type\<close>, whose
  last branch is an \<^verbatim>\<open>else\<close>. Each branch reads the keys of its kind; the key named in
  the \<^verbatim>\<open>KeyError\<close> is the first one the branch reads.
\<close>

definition format_results ::
  "(nat \<Rightarrow> pyfloat \<Rightarrow> string) \<Rightarrow> results \<Rightarrow> string \<Rightarrow> py_error + string" where
  "format_results fmt res kind =
     (if kind = ''ttest'' then
        (case res of TTestResults r \<Rightarrow> Inr (format_ttest fmt r)
                   | _ \<Rightarrow> Inl (KeyError ''test_type''))
      else if kind = ''qtest'' then
        (case res of QTestResults r \<Rightarrow> Inr (format_qtest fmt r)
                   | _ \<Rightarrow> Inl (KeyError ''q_statistic''))
      else if kind = ''error_propagation'' then
        (case res of EPResults r \<Rightarrow> Inr (format_error_propagation fmt r)
                   | _ \<Rightarrow> Inl (KeyError ''derivatives''))
      else
        (case res of CIResults r \<Rightarrow> Inr (format_confidence_interval fmt r)
                   | _ \<Rightarrow> Inl (KeyError ''confidence_level'')))"

text \<open>The last line of a text: what follows its last line feed.\<close>

definition last_line :: "string \<Rightarrow> string" where
  "last_line s = rev (takeWhile (\<lambda>c. c \<noteq> CHR 0x0A) (rev s))"

section \<open>Theorems\<close>

subsection \<open>Splitting a sample\<close>

text \<open>
  C9. For every list, \<open>split_data_for_ttest\<close> returns two lists whose concatenation, first
  then second, is the input; the first holds exactly the first \<open>n div 2\<close> elements of the
  input (and so has that length), the second the remaining ones.
\<close>

theorem split_data_for_ttest_concat:
  "fst (split_data_for_ttest data) @ snd (split_data_for_ttest data) = data \<and>
   fst (split_data_for_ttest data) = take (length data div 2) data \<and>
   length (fst (split_data_for_ttest data)) = length data div 2 \<and>
   length (snd (split_data_for_ttest data)) = length data - length data div 2"
  by (simp add: split_data_for_ttest_def Let_def)

subsection \<open>Sequencing and indexing\<close>

lemma and_then_Inr [simp]: "and_then (Inr v) f = f v"
  by (simp add: and_then_def)

lemma and_then_Inl [simp]: "and_then (Inl e) f = Inl e"
  by (simp add: and_then_def)

lemma py_getitem_nonneg: "i < length xs \<Longrightarrow> py_getitem xs (int i) = Inr (xs ! i)"
  by (simp add: py_getitem_def)

lemma py_getitem_neg:
  "0 < k \<Longrightarrow> k \<le> length xs \<Longrightarrow> py_getitem xs (- int k) = Inr (xs ! (length xs - k))"
  by (simp add: py_getitem_def nat_diff_distrib' of_nat_diff)

lemma py_getitem_short:
  "length xs \<le> i \<Longrightarrow> py_getitem xs (int i) = Inl IndexError"
  by (simp add: py_getitem_def)

subsection \<open>The Q-test\<close>

lemma sort_nonempty: "data \<noteq> [] \<Longrightarrow> sort data \<noteq> []"
proof
  assume "data \<noteq> []" and "sort data = []"
  then have "length (sort data) = 0" by (simp only: list.size)
  with \<open>data \<noteq> []\<close> show False by simp
qed

lemma sorted_first_Min:
  assumes "sorted xs" "xs \<noteq> []"
  shows "xs ! 0 = Min (set xs)"
proof -
  have "\<forall>y \<in> set xs. xs ! 0 \<le> y"
    using assms by (metis in_set_conv_nth sorted_nth_mono le0)
  moreover have "xs ! 0 \<in> set xs" using assms by simp
  ultimately show ?thesis by (intro Min_eqI [symmetric]) auto
qed

lemma sorted_last_Max:
  assumes "sorted xs" "xs \<noteq> []"
  shows "xs ! (length xs - 1) = Max (set xs)"
proof -
  have "\<forall>y \<in> set xs. y \<le> xs ! (length xs - 1)"
  proof
    fix y assume "y \<in> set xs"
    then obtain i where "i < length xs" "xs ! i = y" by (auto simp: in_set_conv_nth)
    then show "y \<le> xs ! (length xs - 1)"
      using sorted_nth_mono [OF assms(1), of i "length xs - 1"] by auto
  qed
  moreover have "xs ! (length xs - 1) \<in> set xs" using assms by simp
  ultimately show ?thesis by (intro Max_eqI [symmetric]) auto
qed

lemma q_critical_values_spec:
  "3 \<le> n \<Longrightarrow> q_critical_values (min n 10) = Some (spec_critical_value (min n 10))"
proof -
  assume "3 \<le> n"
  then have "min n 10 \<in> {3, 4, 5, 6, 7, 8, 9, 10}" by (auto simp: min_def)
  then show ?thesis
    by (auto simp: q_critical_values_def spec_critical_value_def)
qed

lemma q_critical_values_small: "n < 3 \<Longrightarrow> q_critical_values (min n 10) = None"
  by (simp add: q_critical_values_def min_def)

lemma perform_qtest_unfold:
  assumes "2 \<le> length data"
  shows "perform_qtest data cl =
     (let s = sort data; n = length data; r = \<bar>s ! (n - 1) - s ! 0\<bar> in
      if r = 0 then Inl ZeroDivisionError
      else case q_critical_values (min n 10) of
             None \<Rightarrow> Inl TypeError
           | Some c \<Rightarrow>
               Inr \<lparr>q_statistic = max (\<bar>s ! 1 - s ! 0\<bar> / r) (\<bar>s ! (n - 1) - s ! (n - 2)\<bar> / r),
                    q_critical = c,
                    is_outlier = (if max (\<bar>s ! 1 - s ! 0\<bar> / r) (\<bar>s ! (n - 1) - s ! (n - 2)\<bar> / r) > c
                                  then 1 else 0)\<rparr>)"
proof -
  let ?s = "sort data"
  have len: "length ?s = length data" by simp
  have dne: "data \<noteq> []" using assms by auto
  then have ne: "?s \<noteq> []" by (rule sort_nonempty)
  have g1: "py_getitem ?s 1 = Inr (?s ! 1)"
    using py_getitem_nonneg [of 1 ?s] assms by simp
  have g0: "py_getitem ?s 0 = Inr (?s ! 0)"
    using py_getitem_nonneg [of 0 ?s] dne by simp
  have gl: "py_getitem ?s (- 1) = Inr (?s ! (length data - 1))"
    using py_getitem_neg [of 1 ?s] assms by simp
  have gl2: "py_getitem ?s (- 2) = Inr (?s ! (length data - 2))"
    using py_getitem_neg [of 2 ?s] assms by simp
  show ?thesis
    unfolding perform_qtest_def Let_def len g1 g0 gl gl2
    by (simp add: py_truediv_def split: option.split)
qed

lemma range_zero_iff:
  fixes data :: "real list"
  assumes "data \<noteq> []"
  shows "\<bar>sort data ! (length data - 1) - sort data ! 0\<bar> = 0 \<longleftrightarrow> Min (set data) = Max (set data)"
proof -
  have "sort data ! 0 = Min (set data)"
    using sorted_first_Min [of "sort data"] sort_nonempty [OF assms] by simp
  moreover have "sort data ! (length data - 1) = Max (set data)"
    using sorted_last_Max [of "sort data"] sort_nonempty [OF assms] by simp
  ultimately show ?thesis by auto
qed


lemma perform_qtest_short: "length data < 2 \<Longrightarrow> perform_qtest data cl = Inl IndexError"
  using py_getitem_short [of "sort data" 1]
  by (simp add: perform_qtest_def)

lemma max_divide_pos: "0 < (r::real) \<Longrightarrow> max (a / r) (b / r) = max a b / r"
  by (simp add: max_def divide_le_cancel)

text \<open>
  C1. The claim: for every sample of size 3 to 10, \<open>perform_qtest\<close> never raises. It fails
  on a sample whose values are all equal: the range \<^verbatim>\<open>sorted_data[-1] - sorted_data[0]\<close> is
  zero and the division of line 27 raises \<^verbatim>\<open>ZeroDivisionError\<close>.
\<close>

theorem perform_qtest_zero_range_counterexample:
  "length [1, 1, 1 :: real] = 3 \<and> perform_qtest [1, 1, 1] (95 / 100) = Inl ZeroDivisionError"
  by (simp add: perform_qtest_def py_getitem_def py_truediv_def)

text \<open>
  C1, as the code has it: for every sample of size 3 to 10, \<open>perform_qtest\<close> returns a result
  when the smallest and the largest value differ, and raises \<^verbatim>\<open>ZeroDivisionError\<close> when they
  are equal. No other exception is possible at these sizes.
\<close>

theorem perform_qtest_returns_unless_zero_range:
  assumes "3 \<le> length data" and "length data \<le> 10"
  shows "(Min (set data) \<noteq> Max (set data) \<longrightarrow> (\<exists>r. perform_qtest data cl = Inr r)) \<and>
         (Min (set data) = Max (set data) \<longrightarrow> perform_qtest data cl = Inl ZeroDivisionError)"
proof -
  have two: "2 \<le> length data" and ne: "data \<noteq> []" using assms(1) by auto
  obtain c where c: "q_critical_values (min (length data) 10) = Some c"
    using q_critical_values_spec [OF assms(1)] by blast
  show ?thesis
    using range_zero_iff [OF ne] c
    by (simp add: perform_qtest_unfold [OF two] Let_def)
qed

theorem perform_qtest_returns_witness:
  "(\<exists>r. perform_qtest [1, 2, 10] (95 / 100) = Inr r) \<and>
   perform_qtest [4, 4, 4, 4] (95 / 100) = Inl ZeroDivisionError"
proof -
  have "Min (set [1, 2, 10 :: real]) \<noteq> Max (set [1, 2, 10])" by simp
  moreover have "Min (set [4, 4, 4, 4 :: real]) = Max (set [4, 4, 4, 4])" by simp
  ultimately show ?thesis
    using perform_qtest_returns_unless_zero_range [of "[1, 2, 10]" "95 / 100"]
      perform_qtest_returns_unless_zero_range [of "[4, 4, 4, 4]" "95 / 100"]
    by simp
qed

text \<open>
  C4. For every sample of size \<open>n \<ge> 3\<close> whose smallest and largest value differ,
  \<open>perform_qtest\<close> returns a result whose statistic is
  \<open>max |x\<^sub>1 - x\<^sub>0| |x\<^bsub>n-1\<^esub> - x\<^bsub>n-2\<^esub>| / |x\<^bsub>n-1\<^esub> - x\<^sub>0|\<close> on the ascending-sorted sample \<open>x\<close> (a
  sorted rearrangement of the input), whose critical value is the entry of the fixed table
  at \<open>min n 10\<close>, and whose outlier flag is 1 exactly when the statistic exceeds the critical
  value and 0 otherwise.
\<close>

theorem perform_qtest_dixon:
  assumes "3 \<le> length data" and "Min (set data) \<noteq> Max (set data)"
  shows "\<exists>r. perform_qtest data cl = Inr r \<and>
           sorted (sort data) \<and> mset (sort data) = mset data \<and>
           q_statistic r =
             max \<bar>sort data ! 1 - sort data ! 0\<bar>
                 \<bar>sort data ! (length data - 1) - sort data ! (length data - 2)\<bar>
             / \<bar>sort data ! (length data - 1) - sort data ! 0\<bar> \<and>
           q_critical_values (min (length data) 10) = Some (q_critical r) \<and>
           q_critical r = spec_critical_value (min (length data) 10) \<and>
           is_outlier r = (if q_statistic r > q_critical r then 1 else 0)"
proof -
  have two: "2 \<le> length data" and ne: "data \<noteq> []" using assms(1) by auto
  have pos: "0 < \<bar>sort data ! (length data - 1) - sort data ! 0\<bar>"
    using range_zero_iff [OF ne] assms(2) by simp
  show ?thesis
    using pos q_critical_values_spec [OF assms(1)]
    by (simp add: perform_qtest_unfold [OF two] Let_def max_divide_pos)
qed

theorem perform_qtest_dixon_witness:
  "\<exists>r. perform_qtest [10, 1, 2] (95 / 100) = Inr r \<and> q_statistic r = 8 / 9 \<and>
       q_critical r = 97 / 100 \<and> is_outlier r = 0"
proof -
  have "Min (set [10, 1, 2 :: real]) \<noteq> Max (set [10, 1, 2])" by simp
  then show ?thesis
    using perform_qtest_dixon [of "[10, 1, 2]" "95 / 100"]
    by (auto simp: spec_critical_value_def)
qed

subsection \<open>Splitting on whitespace\<close>




lemma split_run_word:
  "list_all (\<lambda>c. \<not> py_isspace c) t \<Longrightarrow> split_run w (t @ rest) = split_run (w @ t) rest"
  by (induction t arbitrary: w) auto

lemma split_run_spaces:
  "list_all py_isspace sp \<Longrightarrow> sp \<noteq> [] \<Longrightarrow> w \<noteq> [] \<Longrightarrow>
     split_run w (sp @ rest) = w # split_run [] rest"
proof (induction sp arbitrary: w)
  case Nil then show ?case by simp
next
  case (Cons c sp)
  show ?case
  proof (cases "sp = []")
    case True with Cons.prems show ?thesis by simp
  next
    case False
    have "list_all py_isspace sp" using Cons.prems by simp
    have lead: "split_run [] (sp @ rest) = split_run [] rest" if "list_all py_isspace sp" for sp
      using that by (induction sp) auto
    show ?thesis using Cons.prems lead [of sp] by simp
  qed
qed

lemma split_leading_spaces:
  "list_all py_isspace sp \<Longrightarrow> split_run [] (sp @ rest) = split_run [] rest"
  by (induction sp) auto




lemma split_run_pairs:
  assumes "list_all (\<lambda>(t, sp). t \<noteq> [] \<and> list_all (\<lambda>c. \<not> py_isspace c) t \<and>
                              sp \<noteq> [] \<and> list_all py_isspace sp) ps"
    and "list_all (\<lambda>c. \<not> py_isspace c) final"
  shows "split_run [] (concat (map (\<lambda>(t, sp). t @ sp) ps) @ final) =
           map fst ps @ (if final = [] then [] else [final])"
  using assms(1)
proof (induction ps)
  case Nil
  show ?case using split_run_word [OF assms(2), of "[]" "[]"] by simp
next
  case (Cons p ps)
  obtain t sp where p: "p = (t, sp)" by (cases p)
  from Cons.prems p have t: "t \<noteq> []" "list_all (\<lambda>c. \<not> py_isspace c) t"
    and sp: "sp \<noteq> []" "list_all py_isspace sp" by auto
  have "split_run [] (t @ sp @ concat (map (\<lambda>(t, sp). t @ sp) ps) @ final) =
        split_run t (sp @ concat (map (\<lambda>(t, sp). t @ sp) ps) @ final)"
    using split_run_word [OF t(2), of "[]"] by simp
  also have "\<dots> = t # split_run [] (concat (map (\<lambda>(t, sp). t @ sp) ps) @ final)"
    using split_run_spaces [OF sp(2) sp(1) t(1)] by simp
  finally show ?case using Cons p by simp
qed

lemma str_split_join:
  assumes "list_all py_isspace lead"
    and "list_all (\<lambda>(t, sp). t \<noteq> [] \<and> list_all (\<lambda>c. \<not> py_isspace c) t \<and>
                              sp \<noteq> [] \<and> list_all py_isspace sp) ps"
    and "list_all (\<lambda>c. \<not> py_isspace c) final"
  shows "str_split (lead @ concat (map (\<lambda>(t, sp). t @ sp) ps) @ final) =
           map fst ps @ (if final = [] then [] else [final])"
  unfolding str_split_def split_leading_spaces [OF assms(1)]
  by (rule split_run_pairs [OF assms(2,3)])

subsection \<open>Parsing a numeric sample\<close>



subsection \<open>Validating the inputs of the error propagation\<close>

lemma first_invalid_name_None:
  "first_invalid_name vs = None \<longleftrightarrow> \<not> list_ex (\<lambda>name. \<not> variable_pattern_match name) vs"
  by (induction vs) auto

lemma first_invalid_name_Some:
  "first_invalid_name vs = Some v \<Longrightarrow>
     \<exists>pre post. vs = pre @ v # post \<and> list_all variable_pattern_match pre \<and>
                \<not> variable_pattern_match v"
proof (induction vs)
  case Nil then show ?case by simp
next
  case (Cons a vs)
  show ?case
  proof (cases "variable_pattern_match a")
    case False
    with Cons.prems have "a = v" by simp
    with False show ?thesis by (intro exI [of _ "[]"] exI [of _ vs]) simp
  next
    case True
    with Cons.prems have "first_invalid_name vs = Some v" by simp
    from Cons.IH [OF this] obtain pre post where
      "vs = pre @ v # post" "list_all variable_pattern_match pre" "\<not> variable_pattern_match v"
      by blast
    with True show ?thesis by (intro exI [of _ "a # pre"] exI [of _ post]) simp
  qed
qed

lemma undefined_vars_nonempty:
  "set fs - set vs \<noteq> {} \<longleftrightarrow> list_ex (\<lambda>ident. ident \<notin> set vs) fs"
  by (auto simp: list_ex_iff)

text \<open>
  C5. For every input, the failure that \<open>validate_error_propagation_inputs\<close> reports is
  the first failing check in the order MissingField, LengthMismatch, InvalidVariableName,
  NonPositiveUncertainty, UndefinedVariable, UnbalancedParentheses (a later failing check is
  not reported), and the validation succeeds exactly when none of the six checks fails.
\<close>

theorem validate_error_propagation_inputs_order:
  "map_sum check_of id (validate_error_propagation_inputs vs xs es f) =
     (case first_failing (spec_checks vs xs es f) of None \<Rightarrow> Inr () | Some k \<Rightarrow> Inl k) \<and>
   (validate_error_propagation_inputs vs xs es f = Inr () \<longleftrightarrow>
      list_all (\<lambda>(k, fails). \<not> fails) (spec_checks vs xs es f))"
proof -
  have inv: "list_ex (\<lambda>name. \<not> variable_pattern_match name) vs \<longleftrightarrow> first_invalid_name vs \<noteq> None"
    by (simp add: first_invalid_name_None)
  show ?thesis
    unfolding validate_error_propagation_inputs_def spec_checks_def Let_def
      undefined_vars_nonempty inv
    by (cases "first_invalid_name vs") auto
qed

theorem validate_error_propagation_inputs_order_witness:
  "validate_error_propagation_inputs [''x'', ''y''] [2, 3] [1 / 10, 2 / 10] ''x**2 + 2*x*y + y**2''
     = Inr () \<and>
   map_sum check_of id
     (validate_error_propagation_inputs [''x'', ''2y''] [2, 3] [1 / 10, 0] ''(x + z'')
     = Inl Check_InvalidVariableName \<and>
   map_sum check_of id
     (validate_error_propagation_inputs [''x'', ''y''] [2, 3] [1 / 10, 0] ''(x + z'')
     = Inl Check_NonPositiveUncertainty \<and>
   map_sum check_of id
     (validate_error_propagation_inputs [''x'', ''y''] [2, 3] [1 / 10, 1] ''(x + z'')
     = Inl Check_UndefinedVariable \<and>
   map_sum check_of id
     (validate_error_propagation_inputs [''x'', ''y''] [2, 3] [1 / 10, 1] ''(x + y'')
     = Inl Check_UnbalancedParentheses"
proof -
  have m: "variable_pattern_match ''x''" "variable_pattern_match ''y''"
    "\<not> variable_pattern_match ''2y''"
    by (simp_all add: variable_pattern_match_def ident_start_def ident_char_def is_digit_def)
  show ?thesis
    using validate_error_propagation_inputs_order
            [of "[''x'', ''y'']" "[2, 3]" "[1 / 10, 2 / 10]" "''x**2 + 2*x*y + y**2''"]
      validate_error_propagation_inputs_order [of "[''x'', ''2y'']" "[2, 3]" "[1 / 10, 0]" "''(x + z''"]
      validate_error_propagation_inputs_order [of "[''x'', ''y'']" "[2, 3]" "[1 / 10, 0]" "''(x + z''"]
      validate_error_propagation_inputs_order [of "[''x'', ''y'']" "[2, 3]" "[1 / 10, 1]" "''(x + z''"]
      validate_error_propagation_inputs_order [of "[''x'', ''y'']" "[2, 3]" "[1 / 10, 1]" "''(x + y''"]
    by (simp add: spec_checks_def m str_count_def ident_start_def ident_char_def
        is_digit_def)
qed

subsection \<open>The confidence interval\<close>














subsection \<open>The t-test\<close>

text \<open>
  C6. For every pair of samples: in paired mode \<open>perform_ttest\<close> fails with
  \<open>SizeMismatch\<close> if and only if the lengths differ, and on equal lengths \<open>n\<close> it returns a
  result with \<open>n - 1\<close> degrees of freedom; in independent mode it returns a result for any
  pair of lengths, with \<open>n1 + n2 - 2\<close> degrees of freedom; any other mode fails with
  \<open>InvalidTestType\<close>.
\<close>

theorem perform_ttest_modes:
  "(kind = ''paired'' \<longrightarrow>
      (perform_ttest lib group1 group2 kind = Inl SizeMismatch \<longleftrightarrow>
         length group1 \<noteq> length group2) \<and>
      (length group1 = length group2 \<longrightarrow>
         (\<exists>r. perform_ttest lib group1 group2 kind = Inr r \<and>
              dof r = int (length group1) - 1))) \<and>
   (kind = ''independent'' \<longrightarrow>
      (\<exists>r. perform_ttest lib group1 group2 kind = Inr r \<and>
           dof r = int (length group1) + int (length group2) - 2)) \<and>
   (kind \<noteq> ''independent'' \<and> kind \<noteq> ''paired'' \<longrightarrow>
      perform_ttest lib group1 group2 kind = Inl InvalidTestType)"
  by (auto simp: perform_ttest_def Let_def split: prod.splits)

theorem perform_ttest_modes_witness:
  "\<forall>lib.
     perform_ttest lib [1, 2, 3] [4, 5] ''paired'' = Inl SizeMismatch \<and>
     (\<exists>r. perform_ttest lib [1, 2, 3] [4, 5, 9] ''paired'' = Inr r \<and> dof r = 2) \<and>
     (\<exists>r. perform_ttest lib [1, 2, 3] [4, 5] ''independent'' = Inr r \<and> dof r = 3) \<and>
     perform_ttest lib [1, 2, 3] [4, 5] ''welch'' = Inl InvalidTestType"
proof
  fix lib
  show "perform_ttest lib [1, 2, 3] [4, 5] ''paired'' = Inl SizeMismatch \<and>
     (\<exists>r. perform_ttest lib [1, 2, 3] [4, 5, 9] ''paired'' = Inr r \<and> dof r = 2) \<and>
     (\<exists>r. perform_ttest lib [1, 2, 3] [4, 5] ''independent'' = Inr r \<and> dof r = 3) \<and>
     perform_ttest lib [1, 2, 3] [4, 5] ''welch'' = Inl InvalidTestType"
    using perform_ttest_modes [of "''paired''" lib "[1, 2, 3]" "[4, 5]"]
      perform_ttest_modes [of "''paired''" lib "[1, 2, 3]" "[4, 5, 9]"]
      perform_ttest_modes [of "''independent''" lib "[1, 2, 3]" "[4, 5]"]
      perform_ttest_modes [of "''welch''" lib "[1, 2, 3]" "[4, 5]"]
    by simp
qed

subsection \<open>Formatting\<close>

lemma last_line_append:
  assumes "CHR 0x0A \<notin> set b"
  shows "last_line (a @ [CHR 0x0A] @ b) = b"
proof -
  have "takeWhile (\<lambda>c. c \<noteq> CHR 0x0A) (rev b @ CHR 0x0A # rev a) =
        rev b @ takeWhile (\<lambda>c. c \<noteq> CHR 0x0A) (CHR 0x0A # rev a)"
    by (rule takeWhile_append2) (use assms in auto)
  then show ?thesis by (simp add: last_line_def)
qed

lemma judgment_line_no_newline:
  "CHR 0x0A \<notin> set (txt_judgment_alpha @ txt_significant)"
  "CHR 0x0A \<notin> set (txt_judgment_alpha @ txt_not_significant)"
  by (simp_all add: txt_judgment_alpha_def txt_significant_def txt_not_significant_def)

lemma last_line_format_ttest:
  "last_line (format_ttest fmt r) =
     txt_judgment_alpha @
       (if flt (pvalue r) (Fin (5 / 100)) then txt_significant else txt_not_significant)"
proof -
  let ?sig = "if flt (pvalue r) (Fin (5 / 100)) then txt_significant else txt_not_significant"
  have nn: "CHR 0x0A \<notin> set (txt_judgment_alpha @ ?sig)"
    using judgment_line_no_newline by (cases "flt (pvalue r) (Fin (5 / 100))") simp_all
  obtain a where a: "format_ttest fmt r = a @ [CHR 0x0A] @ (txt_judgment_alpha @ ?sig)"
    by (simp add: format_ttest_def Let_def nl_def)
  show ?thesis unfolding a by (rule last_line_append [OF nn])
qed

text \<open>
  C8. For every t-test result and every float formatting, \<open>format_results\<close> with kind
  \<^verbatim>\<open>"ttest"\<close> returns the t-test text, whose last line, the judgment line, carries the
  label "significant" exactly when the p-value is strictly less than 0.05 and the label
  "not significant" otherwise (a NaN p-value included). The threshold is the constant of
  the code: nothing else in the arguments enters the choice.
\<close>

theorem format_results_ttest_significance:
  "format_results fmt (TTestResults r) ''ttest'' = Inr (format_ttest fmt r) \<and>
   (last_line (format_ttest fmt r) = txt_judgment_alpha @ txt_significant \<longleftrightarrow>
      flt (pvalue r) (Fin (5 / 100))) \<and>
   (last_line (format_ttest fmt r) = txt_judgment_alpha @ txt_not_significant \<longleftrightarrow>
      \<not> flt (pvalue r) (Fin (5 / 100)))"
  by (simp add: format_results_def last_line_format_ttest txt_significant_def
      txt_not_significant_def)

theorem format_results_ttest_significance_witness:
  "\<forall>fmt s d m1 m2 k.
     last_line (format_ttest fmt
       \<lparr>statistic = s, pvalue = Fin (49 / 1000), dof = d, mean1 = m1, mean2 = m2, test_type = k\<rparr>)
       = txt_judgment_alpha @ txt_significant \<and>
     last_line (format_ttest fmt
       \<lparr>statistic = s, pvalue = Fin (5 / 100), dof = d, mean1 = m1, mean2 = m2, test_type = k\<rparr>)
       = txt_judgment_alpha @ txt_not_significant \<and>
     last_line (format_ttest fmt
       \<lparr>statistic = s, pvalue = NaN, dof = d, mean1 = m1, mean2 = m2, test_type = k\<rparr>)
       = txt_judgment_alpha @ txt_not_significant"
proof (intro allI)
  fix fmt s d m1 m2 k
  show "last_line (format_ttest fmt
       \<lparr>statistic = s, pvalue = Fin (49 / 1000), dof = d, mean1 = m1, mean2 = m2, test_type = k\<rparr>)
       = txt_judgment_alpha @ txt_significant \<and>
     last_line (format_ttest fmt
       \<lparr>statistic = s, pvalue = Fin (5 / 100), dof = d, mean1 = m1, mean2 = m2, test_type = k\<rparr>)
       = txt_judgment_alpha @ txt_not_significant \<and>
     last_line (format_ttest fmt
       \<lparr>statistic = s, pvalue = NaN, dof = d, mean1 = m1, mean2 = m2, test_type = k\<rparr>)
       = txt_judgment_alpha @ txt_not_significant"
    using format_results_ttest_significance [of fmt
        "\<lparr>statistic = s, pvalue = Fin (49 / 1000), dof = d, mean1 = m1, mean2 = m2, test_type = k\<rparr>"]
      format_results_ttest_significance [of fmt
        "\<lparr>statistic = s, pvalue = Fin (5 / 100), dof = d, mean1 = m1, mean2 = m2, test_type = k\<rparr>"]
      format_results_ttest_significance [of fmt
        "\<lparr>statistic = s, pvalue = NaN, dof = d, mean1 = m1, mean2 = m2, test_type = k\<rparr>"]
    by simp
qed

text \<open>
  C10. For every kind other than \<^verbatim>\<open>"ttest"\<close>, \<^verbatim>\<open>"qtest"\<close> and \<^verbatim>\<open>"error_propagation"\<close>,
  \<open>format_results\<close> behaves as for \<^verbatim>\<open>"confidence_interval"\<close>: a confidence-interval result
  is rendered by the confidence-interval branch, and the only possible failure is the
  \<^verbatim>\<open>KeyError\<close> of that branch on a result of another kind; no error about the kind is
  reported.
\<close>

theorem format_results_unknown_kind:
  assumes "kind \<noteq> ''ttest''" and "kind \<noteq> ''qtest''" and "kind \<noteq> ''error_propagation''"
  shows "format_results fmt res kind = format_results fmt res ''confidence_interval'' \<and>
         format_results fmt (CIResults r) kind = Inr (format_confidence_interval fmt r) \<and>
         format_results fmt res kind =
           (case res of CIResults c \<Rightarrow> Inr (format_confidence_interval fmt c)
                      | _ \<Rightarrow> Inl (KeyError ''confidence_level''))"
  using assms by (simp add: format_results_def)

theorem format_results_unknown_kind_witness:
  "\<forall>fmt r. format_results fmt (CIResults r) ''anova'' = Inr (format_confidence_interval fmt r) \<and>
           format_results fmt (CIResults r) [] = Inr (format_confidence_interval fmt r)"
proof (intro allI conjI)
  fix fmt r
  have a: "''anova'' \<noteq> ''ttest''" "''anova'' \<noteq> ''qtest''" "''anova'' \<noteq> ''error_propagation''"
    by simp_all
  have e: "[] \<noteq> ''ttest''" "[] \<noteq> ''qtest''" "[] \<noteq> ''error_propagation''"
    by simp_all
  show "format_results fmt (CIResults r) ''anova'' = Inr (format_confidence_interval fmt r)"
    using format_results_unknown_kind [OF a, of fmt "CIResults r" r] by (elim conjE)
  show "format_results fmt (CIResults r) [] = Inr (format_confidence_interval fmt r)"
    using format_results_unknown_kind [OF e, of fmt "CIResults r" r] by (elim conjE)
qed

subsection \<open>The error propagation\<close>

lemma subs_float_value:
  "(\<And>v. var_dict v = Some (\<rho> v)) \<Longrightarrow> subs_float e var_dict = Inr (expr_value e \<rho>)"
  by (induction e) simp_all

lemma diff_is_derivative:
  "((\<lambda>t. expr_value e (\<rho>(v := t))) has_real_derivative expr_value (diff e v) (\<rho>(v := t))) (at t)"
proof (induction e)
  case (Num c) show ?case by simp
next
  case (Sym x) show ?case by (cases "x = v") simp_all
next
  case (Add a b) then show ?case by (auto intro!: derivative_eq_intros)
next
  case (Mul a b) then show ?case by (auto intro!: derivative_eq_intros simp: algebra_simps)
next
  case (Power a n)
  show ?case
  proof (cases "n = 0")
    case True then show ?thesis by simp
  next
    case False
    then show ?thesis using Power by (auto intro!: derivative_eq_intros simp: algebra_simps)
  qed
qed

lemma propagate_total:
  "propagate lib func var_dict ps t ds = Inr (t', ds') \<Longrightarrow>
     \<exists>dvs. map (\<lambda>(symbol, error). subs_float (diff func symbol) var_dict) ps = map Inr dvs \<and>
           t' = t + sum_list (map (\<lambda>(dv, symbol, error). (dv * error)\<^sup>2) (zip dvs ps)) \<and>
           ds' = ds @ map (\<lambda>(symbol, error). (symbol, sstr lib (diff func symbol))) ps"
proof (induction ps arbitrary: t ds)
  case Nil then show ?case by simp
next
  case (Cons p ps)
  obtain symbol error where p: "p = (symbol, error)" by (cases p)
  from Cons.prems p obtain dv where dv: "subs_float (diff func symbol) var_dict = Inr dv"
    by (cases "subs_float (diff func symbol) var_dict") (simp_all add: Let_def)
  with Cons.prems p have
    "propagate lib func var_dict ps (t + (dv * error)\<^sup>2)
       (ds @ [(symbol, sstr lib (diff func symbol))]) = Inr (t', ds')"
    by (simp add: Let_def)
  from Cons.IH [OF this] obtain dvs where
    "map (\<lambda>(symbol, error). subs_float (diff func symbol) var_dict) ps = map Inr dvs"
    "t' = t + (dv * error)\<^sup>2 + sum_list (map (\<lambda>(dv, symbol, error). (dv * error)\<^sup>2) (zip dvs ps))"
    "ds' = (ds @ [(symbol, sstr lib (diff func symbol))]) @
             map (\<lambda>(symbol, error). (symbol, sstr lib (diff func symbol))) ps"
    by blast
  then show ?case using p dv by (intro exI [of _ "dv # dvs"]) simp
qed

lemma sqrt_5_approx: "\<bar>sqrt 5 - 2236068 / 1000000\<bar> < (1 / 1000000 :: real)"
proof -
  have "(22360675 / 10000000 :: real) < sqrt 5"
    by (rule real_less_rsqrt) (simp add: power2_eq_square)
  moreover have "sqrt 5 < (22360685 / 10000000 :: real)"
    by (rule real_less_lsqrt) (simp_all add: power2_eq_square)
  ultimately show ?thesis by linarith
qed

text \<open>
  C3. When sympy parses \<^verbatim>\<open>x**2 + 2*x*y + y**2\<close> to the polynomial it denotes,
  \<open>calculate_error_propagation\<close> on the variables \<^verbatim>\<open>["x","y"]\<close>, the values
  \<^verbatim>\<open>[2.0,3.0]\<close> and the uncertainties \<^verbatim>\<open>[0.1,0.2]\<close> returns the function value 25 and the
  propagated error \<open>\<surd>5\<close>, which is 2.236068 to six decimals: both partial derivatives have
  the value 10 at the given values, and the error is the square root of the sum of the
  squares of (partial derivative value times uncertainty).
\<close>

theorem error_propagation_example:
  assumes "sympify lib ''x**2 + 2*x*y + y**2'' = Inr example_expr"
  shows "\<exists>r. calculate_error_propagation lib [''x'', ''y''] [2, 3] [1 / 10, 2 / 10]
                ''x**2 + 2*x*y + y**2'' = Inr r \<and>
             function_value r = 25 \<and>
             subs_float (diff example_expr ''x'') [''x'' \<mapsto> 2, ''y'' \<mapsto> 3] = Inr 10 \<and>
             subs_float (diff example_expr ''y'') [''x'' \<mapsto> 2, ''y'' \<mapsto> 3] = Inr 10 \<and>
             propagated_error r = sqrt ((10 * (1 / 10))\<^sup>2 + (10 * (2 / 10))\<^sup>2) \<and>
             propagated_error r = sqrt 5 \<and>
             \<bar>propagated_error r - 2236068 / 1000000\<bar> < 1 / 1000000"
proof -
  have env: "map_of (rev (zip [''x'', ''y''] [2, 3 :: real])) = [''x'' \<mapsto> 2, ''y'' \<mapsto> 3]"
    by (rule ext) simp
  have fv: "subs_float example_expr [''x'' \<mapsto> 2, ''y'' \<mapsto> 3] = Inr 25"
    by (simp add: example_expr_def)
  have dx: "subs_float (diff example_expr ''x'') [''x'' \<mapsto> 2, ''y'' \<mapsto> 3] = Inr 10"
    by (simp add: example_expr_def)
  have dy: "subs_float (diff example_expr ''y'') [''x'' \<mapsto> 2, ''y'' \<mapsto> 3] = Inr 10"
    by (simp add: example_expr_def)
  have "calculate_error_propagation lib [''x'', ''y''] [2, 3] [1 / 10, 2 / 10]
          ''x**2 + 2*x*y + y**2'' =
        Inr \<lparr>function_value = 25, propagated_error = sqrt 5,
             relative_error = Fin (sqrt 5 / \<bar>25\<bar> * 100),
             original_function = sstr lib example_expr,
             derivatives = [(''x'', sstr lib (diff example_expr ''x'')),
                            (''y'', sstr lib (diff example_expr ''y''))]\<rparr>"
    unfolding calculate_error_propagation_def Let_def assms env
    by (simp add: fv dx dy Let_def power2_eq_square)
  moreover have "sqrt ((10 * (1 / 10))\<^sup>2 + (10 * (2 / 10))\<^sup>2) = sqrt (5 :: real)"
    by (simp add: power2_eq_square)
  ultimately show ?thesis using dx dy sqrt_5_approx by simp
qed

theorem error_propagation_example_witness:
  "\<forall>printer.
     \<exists>r. calculate_error_propagation
            \<lparr>sympify = (\<lambda>s. if s = ''x**2 + 2*x*y + y**2'' then Inr example_expr
                             else Inl SympifyError),
             sstr = printer\<rparr>
            [''x'', ''y''] [2, 3] [1 / 10, 2 / 10] ''x**2 + 2*x*y + y**2'' = Inr r \<and>
         function_value r = 25 \<and> propagated_error r = sqrt 5"
proof
  fix printer
  let ?lib = "\<lparr>sympify = (\<lambda>s. if s = ''x**2 + 2*x*y + y**2'' then Inr example_expr
                             else Inl SympifyError),
               sstr = printer\<rparr>"
  have "sympify ?lib ''x**2 + 2*x*y + y**2'' = Inr example_expr" by simp
  from error_propagation_example [OF this]
  show "\<exists>r. calculate_error_propagation ?lib
            [''x'', ''y''] [2, 3] [1 / 10, 2 / 10] ''x**2 + 2*x*y + y**2'' = Inr r \<and>
         function_value r = 25 \<and> propagated_error r = sqrt 5"
    by blast
qed

section \<open>Further properties\<close>

text \<open>
  X1. \<open>check_data_requirements\<close> rejects a Q-test sample of fewer than three values and an
  empty confidence-interval sample, accepts every other sample for the three known kinds,
  and rejects every other kind.
\<close>

theorem check_data_requirements_cases:
  "check_data_requirements data kind =
     (if kind = ''qtest'' \<and> length data < 3 then Inl QTestTooFewData
      else if kind = ''confidence_interval'' \<and> data = [] then Inl ConfidenceIntervalTooFewData
      else if kind \<in> set [''qtest'', ''confidence_interval'', ''error_propagation'']
        then Inr ()
      else Inl InvalidOperation)"
  by (auto simp: check_data_requirements_def)

text \<open>
  X2. A sample that passes \<open>check_data_requirements\<close> for the Q-test, of whatever size,
  makes \<open>perform_qtest\<close> raise \<^verbatim>\<open>ZeroDivisionError\<close> when all its values are equal and return
  a result otherwise, with the critical value of the table at \<open>min n 10\<close>.
\<close>

theorem perform_qtest_after_requirements:
  fixes data :: "real list"
  assumes "check_data_requirements data ''qtest'' = Inr ()"
  shows "if Min (set data) = Max (set data)
         then perform_qtest data cl = Inl ZeroDivisionError
         else \<exists>r. perform_qtest data cl = Inr r \<and>
                  q_critical r = spec_critical_value (min (length data) 10)"
proof -
  have three: "3 \<le> length data"
    using assms by (simp add: check_data_requirements_def split: if_splits)
  then have two: "2 \<le> length data" and ne: "data \<noteq> []" by auto
  show ?thesis
    using range_zero_iff [OF ne] q_critical_values_spec [OF three]
    by (simp add: perform_qtest_unfold [OF two] Let_def)
qed

theorem perform_qtest_after_requirements_witness:
  "(\<exists>r. perform_qtest [1, 2, 3, 4, 5, 6, 7, 8, 9, 10, 11, 50] (95 / 100) = Inr r \<and>
        q_critical r = 466 / 1000) \<and>
   perform_qtest [3, 3, 3, 3, 3, 3, 3, 3, 3, 3, 3, 3] (95 / 100) = Inl ZeroDivisionError"
proof -
  have r1: "check_data_requirements [1, 2, 3, 4, 5, 6, 7, 8, 9, 10, 11, 50 :: real] ''qtest'' = Inr ()"
    and r2: "check_data_requirements [3, 3, 3, 3, 3, 3, 3, 3, 3, 3, 3, 3 :: real] ''qtest'' = Inr ()"
    by (simp_all add: check_data_requirements_def)
  have m1: "Min (set [1, 2, 3, 4, 5, 6, 7, 8, 9, 10, 11, 50 :: real]) \<noteq>
            Max (set [1, 2, 3, 4, 5, 6, 7, 8, 9, 10, 11, 50])" by simp
  have m2: "Min (set [3, 3, 3, 3, 3, 3, 3, 3, 3, 3, 3, 3 :: real]) =
            Max (set [3, 3, 3, 3, 3, 3, 3, 3, 3, 3, 3, 3])" by simp
  show ?thesis
    using perform_qtest_after_requirements [OF r1, of "95 / 100"]
      perform_qtest_after_requirements [OF r2, of "95 / 100"] m1 m2
    by (simp add: spec_critical_value_def)
qed

text \<open>
  X3. Without the requirements check, \<open>perform_qtest\<close> raises \<^verbatim>\<open>IndexError\<close> on fewer than
  two values; on two values it raises \<^verbatim>\<open>ZeroDivisionError\<close> when they are equal and
  \<^verbatim>\<open>TypeError\<close> otherwise, the table having no entry for size 2.
\<close>

theorem perform_qtest_small_samples:
  fixes data :: "real list"
  shows "(length data < 2 \<longrightarrow> perform_qtest data cl = Inl IndexError) \<and>
         (length data = 2 \<longrightarrow>
            perform_qtest data cl =
              (if Min (set data) = Max (set data) then Inl ZeroDivisionError else Inl TypeError))"
proof (intro conjI impI)
  assume "length data < 2"
  then show "perform_qtest data cl = Inl IndexError" by (rule perform_qtest_short)
next
  assume two: "length data = 2"
  then have ne: "data \<noteq> []" by auto
  from two have le: "2 \<le> length data" by simp
  show "perform_qtest data cl =
          (if Min (set data) = Max (set data) then Inl ZeroDivisionError else Inl TypeError)"
    using range_zero_iff [OF ne] q_critical_values_small [of "length data"] two
    by (simp add: perform_qtest_unfold [OF le] Let_def)
qed

theorem perform_qtest_small_samples_witness:
  "perform_qtest [] (95 / 100) = Inl IndexError \<and>
   perform_qtest [1] (95 / 100) = Inl IndexError \<and>
   perform_qtest [1, 2] (95 / 100) = Inl TypeError \<and>
   perform_qtest [2, 2] (95 / 100) = Inl ZeroDivisionError"
  using perform_qtest_small_samples [of "[]" "95 / 100"]
    perform_qtest_small_samples [of "[1]" "95 / 100"]
    perform_qtest_small_samples [of "[1, 2]" "95 / 100"]
    perform_qtest_small_samples [of "[2, 2]" "95 / 100"]
  by simp

text \<open>
  X4. The pattern of \<open>validate_error_propagation_inputs\<close> accepts exactly the identifiers
  of the specification and the identifiers followed by one final line feed.
\<close>

lemma dropWhile_ident_cases:
  "dropWhile ident_char cs = [] \<longleftrightarrow> list_all ident_char cs"
  by (simp add: list_all_iff)

theorem variable_pattern_match_line_feed:
  "variable_pattern_match var \<longleftrightarrow>
     spec_identifier var \<or> (\<exists>name. spec_identifier name \<and> var = name @ [CHR 0x0A])"
proof (cases var)
  case Nil
  then show ?thesis by (simp add: variable_pattern_match_def spec_identifier_def)
next
  case (Cons c cs)
  have lf: "\<not> ident_char (CHR 0x0A)" by (simp add: ident_char_def ident_start_def is_digit_def)
  have "dropWhile ident_char cs = [CHR 0x0A] \<longleftrightarrow>
          (\<exists>pre. cs = pre @ [CHR 0x0A] \<and> list_all ident_char pre)"
  proof
    assume d: "dropWhile ident_char cs = [CHR 0x0A]"
    have "cs = takeWhile ident_char cs @ dropWhile ident_char cs" by simp
    then have "cs = takeWhile ident_char cs @ [CHR 0x0A]" using d by simp
    moreover have "list_all ident_char (takeWhile ident_char cs)"
      by (simp add: list_all_iff) (meson set_takeWhileD)
    ultimately show "\<exists>pre. cs = pre @ [CHR 0x0A] \<and> list_all ident_char pre" by blast
  next
    assume "\<exists>pre. cs = pre @ [CHR 0x0A] \<and> list_all ident_char pre"
    then obtain pre where "cs = pre @ [CHR 0x0A]" "list_all ident_char pre" by blast
    then show "dropWhile ident_char cs = [CHR 0x0A]"
      using lf by (simp add: dropWhile_append2 list_all_iff)
  qed
  moreover have "(\<exists>name. spec_identifier name \<and> c # cs = name @ [CHR 0x0A]) \<longleftrightarrow>
                 ident_start c \<and> (\<exists>pre. cs = pre @ [CHR 0x0A] \<and> list_all ident_char pre)"
  proof
    assume "\<exists>name. spec_identifier name \<and> c # cs = name @ [CHR 0x0A]"
    then obtain name where n: "spec_identifier name" "c # cs = name @ [CHR 0x0A]" by blast
    then obtain pre where "name = c # pre" by (cases name) (auto simp: spec_identifier_def)
    with n show "ident_start c \<and> (\<exists>pre. cs = pre @ [CHR 0x0A] \<and> list_all ident_char pre)"
      by (auto simp: spec_identifier_def)
  next
    assume "ident_start c \<and> (\<exists>pre. cs = pre @ [CHR 0x0A] \<and> list_all ident_char pre)"
    then obtain pre where "ident_start c" "cs = pre @ [CHR 0x0A]" "list_all ident_char pre"
      by blast
    then show "\<exists>name. spec_identifier name \<and> c # cs = name @ [CHR 0x0A]"
      by (intro exI [of _ "c # pre"]) (simp add: spec_identifier_def)
  qed
  ultimately have k1: "dropWhile ident_char cs = [CHR 0x0A] \<longleftrightarrow>
          (\<exists>pre. cs = pre @ [CHR 0x0A] \<and> list_all ident_char pre)"
    and k2: "(\<exists>name. spec_identifier name \<and> c # cs = name @ [CHR 0x0A]) \<longleftrightarrow>
                 ident_start c \<and> (\<exists>pre. cs = pre @ [CHR 0x0A] \<and> list_all ident_char pre)"
    by blast+
  have L: "variable_pattern_match (c # cs) \<longleftrightarrow>
             ident_start c \<and>
             (list_all ident_char cs \<or> (\<exists>pre. cs = pre @ [CHR 0x0A] \<and> list_all ident_char pre))"
    by (simp only: variable_pattern_match_def list.case Let_def dropWhile_ident_cases k1)
  have R1: "spec_identifier (c # cs) \<longleftrightarrow> ident_start c \<and> list_all ident_char cs"
    by (simp add: spec_identifier_def)
  show ?thesis unfolding Cons L R1 k2 by blast
qed

text \<open>
  X5. So the validation accepts a variable name that is not an identifier: the name
  \<^verbatim>\<open>"x\n"\<close> passes with the expression \<^verbatim>\<open>"1"\<close>.
\<close>

theorem validate_accepts_name_with_line_feed:
  "\<not> spec_identifier (''x'' @ [CHR 0x0A]) \<and>
   validate_error_propagation_inputs [''x'' @ [CHR 0x0A]] [1] [1] ''1'' = Inr ()"
  by (simp add: validate_error_propagation_inputs_def variable_pattern_match_def
      spec_identifier_def ident_start_def ident_char_def is_digit_def str_count_def)

text \<open>
  X6. Whenever \<open>calculate_error_propagation\<close> returns, the function value is the value of
  the parsed expression at the given values, the propagated error is the square root of
  the sum over the variables of (value of the partial derivative times uncertainty)
  squared, and the relative error is the propagated error over the absolute function value
  in percent, or positive infinity when the function value is zero.
\<close>

theorem calculate_error_propagation_formula:
  assumes "calculate_error_propagation lib vs xs es f = Inr r"
  shows "\<exists>func dvs.
           sympify lib f = Inr func \<and>
           subs_float func (map_of (rev (zip vs xs))) = Inr (function_value r) \<and>
           map (\<lambda>(symbol, error). subs_float (diff func symbol) (map_of (rev (zip vs xs))))
               (zip vs es) = map Inr dvs \<and>
           propagated_error r =
             sqrt (sum_list (map (\<lambda>(dv, symbol, error). (dv * error)\<^sup>2) (zip dvs (zip vs es)))) \<and>
           relative_error r =
             (if function_value r \<noteq> 0
              then Fin (propagated_error r / \<bar>function_value r\<bar> * 100) else PosInf)"
proof -
  let ?env = "map_of (rev (zip vs xs))"
  from assms obtain func where func: "sympify lib f = Inr func"
    by (cases "sympify lib f") (simp_all add: calculate_error_propagation_def Let_def)
  from assms func obtain fv where fv: "subs_float func ?env = Inr fv"
    by (cases "subs_float func ?env") (simp_all add: calculate_error_propagation_def Let_def)
  from assms func fv obtain t ds where
    pr: "propagate lib func ?env (zip vs es) 0 [] = Inr (t, ds)"
    by (cases "propagate lib func ?env (zip vs es) 0 []")
       (auto simp: calculate_error_propagation_def Let_def)
  from assms func fv pr have r:
    "r = \<lparr>function_value = fv, propagated_error = sqrt t,
          relative_error = (if fv \<noteq> 0 then Fin ((sqrt t / \<bar>fv\<bar>) * 100) else PosInf),
          original_function = sstr lib func, derivatives = ds\<rparr>"
    by (simp add: calculate_error_propagation_def Let_def)
  from propagate_total [OF pr] obtain dvs where
    dvs: "map (\<lambda>(symbol, error). subs_float (diff func symbol) ?env) (zip vs es) = map Inr dvs"
    and t: "t = 0 + sum_list (map (\<lambda>(dv, symbol, error). (dv * error)\<^sup>2) (zip dvs (zip vs es)))"
    by blast
  show ?thesis
    by (intro exI [of _ func] exI [of _ dvs]) (simp add: func fv dvs r t)
qed

theorem calculate_error_propagation_formula_witness:
  "\<forall>printer.
     \<exists>r. calculate_error_propagation
            \<lparr>sympify = (\<lambda>s. if s = ''x*y'' then Inr (Mul (Sym ''x'') (Sym ''y''))
                             else Inl SympifyError),
             sstr = printer\<rparr>
            [''x'', ''y''] [0, 3] [1, 2] ''x*y'' = Inr r \<and>
         function_value r = 0 \<and> propagated_error r = 3 \<and> relative_error r = PosInf"
proof
  fix printer
  let ?lib = "\<lparr>sympify = (\<lambda>s. if s = ''x*y'' then Inr (Mul (Sym ''x'') (Sym ''y''))
                             else Inl SympifyError),
               sstr = printer\<rparr>"
  have env: "map_of (rev (zip [''x'', ''y''] [0, 3 :: real])) = [''x'' \<mapsto> 0, ''y'' \<mapsto> 3]"
    by (rule ext) simp
  have c: "calculate_error_propagation ?lib [''x'', ''y''] [0, 3] [1, 2] ''x*y'' =
        Inr \<lparr>function_value = 0, propagated_error = 3, relative_error = PosInf,
             original_function = printer (Mul (Sym ''x'') (Sym ''y'')),
             derivatives = [(''x'', printer (diff (Mul (Sym ''x'') (Sym ''y'')) ''x'')),
                            (''y'', printer (diff (Mul (Sym ''x'') (Sym ''y'')) ''y''))]\<rparr>"
    unfolding calculate_error_propagation_def Let_def env
    by (simp add: Let_def power2_eq_square real_sqrt_unique)
  from calculate_error_propagation_formula [OF c] c
  show "\<exists>r. calculate_error_propagation ?lib [''x'', ''y''] [0, 3] [1, 2] ''x*y'' = Inr r \<and>
         function_value r = 0 \<and> propagated_error r = 3 \<and> relative_error r = PosInf"
    by simp
qed

end
